theory Spec2Isabelle
  imports Complex_Main
begin

section \<open>Values of the program\<close>

text \<open>
  Every value the normalizers of \<^verbatim>\<open>streamlit_app.py\<close> traverse is a parsed JSON
  document (the result of \<^verbatim>\<open>response.json()\<close>). Python's \<^verbatim>\<open>None\<close> is \<open>JNull\<close>.
  A Python dict keeps insertion order, and the NEO loop iterates it in that order, so an object
  is an association list (a parsed dict holds each key once; lookups read the first binding of
  a key). Numbers are rationals: every finite double is one, and the order on doubles is the
  order on their values. The rounding done by the JSON reader and by \<^verbatim>\<open>float()\<close>, and
  the values \<^verbatim>\<open>nan\<close> and \<^verbatim>\<open>inf\<close>, are not part of the model.
\<close>

datatype json =
    JNull
  | JBool bool
  | JNum rat
  | JStr string
  | JArr "json list"
  | JObj "(string \<times> json) list"

datatype error = KeyError | IndexError | TypeError | ValueError | AttributeError

type_synonym 'a result = "error + 'a"

definition bind_res :: "'a result \<Rightarrow> ('a \<Rightarrow> 'b result) \<Rightarrow> 'b result" where
  "bind_res m f = (case m of Inl e \<Rightarrow> Inl e | Inr x \<Rightarrow> f x)"

text \<open>\<^verbatim>\<open>if x:\<close> on a parsed JSON value.\<close>

fun truthy :: "json \<Rightarrow> bool" where
  "truthy JNull = False"
| "truthy (JBool b) = b"
| "truthy (JNum r) = (r \<noteq> 0)"
| "truthy (JStr s) = (s \<noteq> [])"
| "truthy (JArr xs) = (xs \<noteq> [])"
| "truthy (JObj kvs) = (kvs \<noteq> [])"

text \<open>\<^verbatim>\<open>x[k]\<close> with a string key: only a dict accepts it, and raises KeyError when the
  key is missing; every other JSON value raises TypeError.\<close>

fun subscript :: "json \<Rightarrow> string \<Rightarrow> json result" where
  "subscript (JObj kvs) k = (case map_of kvs k of None \<Rightarrow> Inl KeyError | Some v \<Rightarrow> Inr v)"
| "subscript _ k = Inl TypeError"

text \<open>\<^verbatim>\<open>x[0]\<close>: the first element of a list or the first character of a string
  (IndexError when empty); a dict with string keys has no key 0.\<close>

fun index0 :: "json \<Rightarrow> json result" where
  "index0 (JArr []) = Inl IndexError"
| "index0 (JArr (x # xs)) = Inr x"
| "index0 (JStr []) = Inl IndexError"
| "index0 (JStr (c # cs)) = Inr (JStr [c])"
| "index0 (JObj kvs) = Inl KeyError"
| "index0 _ = Inl TypeError"

text \<open>\<^verbatim>\<open>for x in v\<close>: the elements of a list, the characters of a string, the keys
  of a dict; anything else is not iterable.\<close>

fun py_iter :: "json \<Rightarrow> json list result" where
  "py_iter (JArr xs) = Inr xs"
| "py_iter (JStr s) = Inr (map (\<lambda>c. JStr [c]) s)"
| "py_iter (JObj kvs) = Inr (map (\<lambda>kv. JStr (fst kv)) kvs)"
| "py_iter _ = Inl TypeError"

text \<open>\<^verbatim>\<open>d.items()\<close>: only a dict has the method.\<close>

fun py_items :: "json \<Rightarrow> (string \<times> json) list result" where
  "py_items (JObj kvs) = Inr kvs"
| "py_items _ = Inl AttributeError"

text \<open>\<^verbatim>\<open>d.get(k, default)\<close>: only a dict has the method; a missing key gives the
  default. \<^verbatim>\<open>d.get(k)\<close> is \<open>py_get d k JNull\<close>.\<close>

fun py_get :: "json \<Rightarrow> string \<Rightarrow> json \<Rightarrow> json result" where
  "py_get (JObj kvs) k dflt = (case map_of kvs k of None \<Rightarrow> Inr dflt | Some v \<Rightarrow> Inr v)"
| "py_get _ k dflt = Inl AttributeError"

text \<open>\<^verbatim>\<open>float(x)\<close> and \<^verbatim>\<open>int(x)\<close>. The readers of string literals are Python
  built-ins, taken as parameters: \<open>None\<close> is a string the built-in rejects (ValueError).\<close>

fun py_float :: "(string \<Rightarrow> rat option) \<Rightarrow> json \<Rightarrow> rat result" where
  "py_float flt (JStr s) = (case flt s of None \<Rightarrow> Inl ValueError | Some r \<Rightarrow> Inr r)"
| "py_float flt (JNum r) = Inr r"
| "py_float flt (JBool b) = Inr (if b then 1 else 0)"
| "py_float flt _ = Inl TypeError"

fun py_int :: "(string \<Rightarrow> int option) \<Rightarrow> json \<Rightarrow> int result" where
  "py_int rd (JStr s) = (case rd s of None \<Rightarrow> Inl ValueError | Some n \<Rightarrow> Inr n)"
| "py_int rd (JNum r) = Inr (if 0 \<le> r then \<lfloor>r\<rfloor> else \<lceil>r\<rceil>)"
| "py_int rd (JBool b) = Inr (if b then 1 else 0)"
| "py_int rd _ = Inl TypeError"

section \<open>Grid layout: rows of three\<close>

text \<open>
  \<^verbatim>\<open>cols = 3
  for i in range(0, len(photos), cols):
      row_photos = photos[i:i+cols]\<close>
  The same loop lays out the EPIC timelapse. \<open>rows_from i xs\<close> is the list of the rows
  the loop builds from index \<open>i\<close> on; the slice \<^verbatim>\<open>xs[i:i+cols]\<close> is
  \<open>take cols (drop i xs)\<close>.
\<close>

definition cols :: nat where
  "cols = 3"

function rows_from :: "nat \<Rightarrow> 'a list \<Rightarrow> 'a list list" where
  "rows_from i xs =
     (if i < length xs then take cols (drop i xs) # rows_from (i + cols) xs else [])"
  by pat_completeness auto
termination
  by (relation "measure (\<lambda>(i, xs). length xs - i)") (auto simp: cols_def)

definition grid_rows :: "'a list \<Rightarrow> 'a list list" where
  "grid_rows xs = rows_from 0 xs"

text \<open>\<^verbatim>\<open>rows = (len(epic_data) + cols - 1) // cols\<close>\<close>

definition rows_needed :: "'a list \<Rightarrow> nat" where
  "rows_needed xs = (length xs + cols - 1) div cols"

section \<open>NEO date range\<close>

text \<open>
  \<^verbatim>\<open>date_difference = (end_date - start_date).days
  if date_difference > 7:
      end_date = start_date + timedelta(days=7)\<close>
  A \<^verbatim>\<open>datetime.date\<close> is its proleptic ordinal (a day count), on which the difference in
  days is subtraction and adding a \<^verbatim>\<open>timedelta\<close> of days is addition.
\<close>

type_synonym date = int

definition clamp_range :: "date \<Rightarrow> date \<Rightarrow> date \<times> date" where
  "clamp_range start_date end_date =
     (let date_difference = end_date - start_date
      in if date_difference > 7 then (start_date, start_date + 7)
         else (start_date, end_date))"

section \<open>NEO normalizer\<close>

text \<open>
  \<^verbatim>\<open>neo_data = []
  for date, neos in data["near_earth_objects"].items():
      for neo in neos:
          neo_info = {"id": neo["id"], "name": neo["name"], "date": date,
              "diameter_min_km": neo["estimated_diameter"]["kilometers"]["estimated_diameter_min"],
              "diameter_max_km": neo["estimated_diameter"]["kilometers"]["estimated_diameter_max"],
              "is_hazardous": neo["is_potentially_hazardous_asteroid"],
              "close_approach_date": neo["close_approach_data"][0]["close_approach_date"],
              "miss_distance_km": float(neo["close_approach_data"][0]["miss_distance"]["kilometers"]),
              "relative_velocity_kph": float(neo["close_approach_data"][0]["relative_velocity"]["kilometers_per_hour"])}
          neo_data.append(neo_info)\<close>
  (the body of \<^verbatim>\<open>if data:\<close>). The entries of the dict display are evaluated in order, and
  the first exception ends the whole loop: no handler surrounds it.
\<close>

record neo_record =
  neo_id :: json
  name :: json
  date :: string
  diameter_min_km :: json
  diameter_max_km :: json
  is_hazardous :: json
  close_approach_date :: json
  miss_distance_km :: rat
  relative_velocity_kph :: rat

text \<open>A chain of subscripts \<^verbatim>\<open>x[k1][k2]...\<close>.\<close>

fun subscripts :: "json \<Rightarrow> string list \<Rightarrow> json result" where
  "subscripts j [] = Inr j"
| "subscripts j (k # ks) = bind_res (subscript j k) (\<lambda>v. subscripts v ks)"

text \<open>\<^verbatim>\<open>neo["close_approach_data"][0]\<close>\<close>

definition first_approach :: "json \<Rightarrow> json result" where
  "first_approach neo = bind_res (subscript neo ''close_approach_data'') index0"

definition neo_info :: "(string \<Rightarrow> rat option) \<Rightarrow> string \<Rightarrow> json \<Rightarrow> neo_record result" where
  "neo_info flt d neo =
     bind_res (subscript neo ''id'') (\<lambda>v_id.
     bind_res (subscript neo ''name'') (\<lambda>v_name.
     bind_res (subscripts neo [''estimated_diameter'', ''kilometers'', ''estimated_diameter_min''])
       (\<lambda>v_min.
     bind_res (subscripts neo [''estimated_diameter'', ''kilometers'', ''estimated_diameter_max''])
       (\<lambda>v_max.
     bind_res (subscript neo ''is_potentially_hazardous_asteroid'') (\<lambda>v_haz.
     bind_res (bind_res (first_approach neo) (\<lambda>a. subscript a ''close_approach_date''))
       (\<lambda>v_cad.
     bind_res (bind_res (bind_res (first_approach neo)
                 (\<lambda>a. subscripts a [''miss_distance'', ''kilometers''])) (py_float flt))
       (\<lambda>v_miss.
     bind_res (bind_res (bind_res (first_approach neo)
                 (\<lambda>a. subscripts a [''relative_velocity'', ''kilometers_per_hour''])) (py_float flt))
       (\<lambda>v_vel.
     Inr \<lparr> neo_id = v_id, name = v_name, date = d,
           diameter_min_km = v_min, diameter_max_km = v_max,
           is_hazardous = v_haz, close_approach_date = v_cad,
           miss_distance_km = v_miss, relative_velocity_kph = v_vel \<rparr>))))))))"

text \<open>The inner loop over one day's objects, and the outer loop over the days.\<close>

fun neo_rows :: "(string \<Rightarrow> rat option) \<Rightarrow> string \<Rightarrow> json list \<Rightarrow> neo_record list result" where
  "neo_rows flt d [] = Inr []"
| "neo_rows flt d (neo # neos) =
     bind_res (neo_info flt d neo) (\<lambda>r.
     bind_res (neo_rows flt d neos) (\<lambda>rs. Inr (r # rs)))"

fun neo_days :: "(string \<Rightarrow> rat option) \<Rightarrow> (string \<times> json) list \<Rightarrow> neo_record list result" where
  "neo_days flt [] = Inr []"
| "neo_days flt ((d, neos) # days) =
     bind_res (py_iter neos) (\<lambda>xs.
     bind_res (neo_rows flt d xs) (\<lambda>rs.
     bind_res (neo_days flt days) (\<lambda>rs'. Inr (rs @ rs'))))"

definition neo_normalize :: "(string \<Rightarrow> rat option) \<Rightarrow> json \<Rightarrow> neo_record list result" where
  "neo_normalize flt data =
     bind_res (subscript data ''near_earth_objects'') (\<lambda>m.
     bind_res (py_items m) (neo_days flt))"

subsection \<open>The shape of a NEO feed\<close>

text \<open>
  The members of a payload, as data: \<open>field\<close> is the member of an object under a key,
  \<open>None\<close> when the value is no object or has no such member; \<open>field_path\<close> follows
  a chain of keys.
\<close>

fun field :: "json \<Rightarrow> string \<Rightarrow> json option" where
  "field (JObj kvs) k = map_of kvs k"
| "field _ k = None"

fun field_path :: "json \<Rightarrow> string list \<Rightarrow> json option" where
  "field_path j [] = Some j"
| "field_path j (k # ks) = (case field j k of None \<Rightarrow> None | Some v \<Rightarrow> field_path v ks)"

text \<open>A numeric string that \<^verbatim>\<open>float\<close> reads.\<close>

fun numeric_string :: "(string \<Rightarrow> rat option) \<Rightarrow> json option \<Rightarrow> bool" where
  "numeric_string flt (Some (JStr s)) = (flt s \<noteq> None)"
| "numeric_string flt _ = False"

text \<open>A close-approach entry: a date, and the miss distance and the relative velocity as
  numeric strings.\<close>

definition valid_approach :: "(string \<Rightarrow> rat option) \<Rightarrow> json \<Rightarrow> bool" where
  "valid_approach flt a \<longleftrightarrow>
     field a ''close_approach_date'' \<noteq> None
     \<and> numeric_string flt (field_path a [''miss_distance'', ''kilometers''])
     \<and> numeric_string flt (field_path a [''relative_velocity'', ''kilometers_per_hour''])"

text \<open>The kilometre diameter estimate: two numbers, the minimum not above the maximum.\<close>

fun ordered_bounds :: "json option \<Rightarrow> json option \<Rightarrow> bool" where
  "ordered_bounds (Some (JNum a)) (Some (JNum b)) = (a \<le> b)"
| "ordered_bounds _ _ = False"

fun nonempty_approaches :: "(string \<Rightarrow> rat option) \<Rightarrow> json option \<Rightarrow> bool" where
  "nonempty_approaches flt (Some (JArr (a # as))) = valid_approach flt a"
| "nonempty_approaches flt _ = False"

definition valid_neo :: "(string \<Rightarrow> rat option) \<Rightarrow> json \<Rightarrow> bool" where
  "valid_neo flt neo \<longleftrightarrow>
     field neo ''id'' \<noteq> None
     \<and> field neo ''name'' \<noteq> None
     \<and> ordered_bounds
          (field_path neo [''estimated_diameter'', ''kilometers'', ''estimated_diameter_min''])
          (field_path neo [''estimated_diameter'', ''kilometers'', ''estimated_diameter_max''])
     \<and> field neo ''is_potentially_hazardous_asteroid'' \<noteq> None
     \<and> nonempty_approaches flt (field neo ''close_approach_data'')"

fun valid_day :: "(string \<Rightarrow> rat option) \<Rightarrow> json \<Rightarrow> bool" where
  "valid_day flt (JArr neos) = list_all (valid_neo flt) neos"
| "valid_day flt _ = False"

fun valid_feed :: "(string \<Rightarrow> rat option) \<Rightarrow> json \<Rightarrow> bool" where
  "valid_feed flt data =
     (case field data ''near_earth_objects'' of
        Some (JObj days) \<Rightarrow> list_all (\<lambda>day. valid_day flt (snd day)) days
      | _ \<Rightarrow> False)"

text \<open>The number of object entries of a feed, over all its date keys.\<close>

fun entries_of_day :: "json \<Rightarrow> nat" where
  "entries_of_day (JArr neos) = length neos"
| "entries_of_day _ = 0"

fun total_entries :: "json \<Rightarrow> nat" where
  "total_entries data =
     (case field data ''near_earth_objects'' of
        Some (JObj days) \<Rightarrow> sum_list (map (\<lambda>day. entries_of_day (snd day)) days)
      | _ \<Rightarrow> 0)"

text \<open>The invariant of a record: both bounds are numbers, in order.\<close>

definition diameter_ordered :: "neo_record \<Rightarrow> bool" where
  "diameter_ordered r = ordered_bounds (Some (diameter_min_km r)) (Some (diameter_max_km r))"

section \<open>Readers of decimal literals\<close>

text \<open>A reader of unsigned decimal literals such as \<^verbatim>\<open>"259"\<close> and \<^verbatim>\<open>"17.5"\<close>, on which
  it agrees with \<^verbatim>\<open>int\<close> and (up to rounding) \<^verbatim>\<open>float\<close>; used to instantiate the
  parameters at concrete payloads.\<close>

definition digit_of :: "char \<Rightarrow> nat option" where
  "digit_of c = map_of (zip ''0123456789'' [0, 1, 2, 3, 4, 5, 6, 7, 8, 9]) c"

fun digits_from :: "nat \<Rightarrow> string \<Rightarrow> nat option" where
  "digits_from acc [] = Some acc"
| "digits_from acc (c # cs) =
     (case digit_of c of None \<Rightarrow> None | Some v \<Rightarrow> digits_from (10 * acc + v) cs)"

definition read_nat :: "string \<Rightarrow> nat option" where
  "read_nat s = (if s = [] then None else digits_from 0 s)"

definition read_int :: "string \<Rightarrow> int option" where
  "read_int s = map_option int (read_nat s)"

definition read_decimal :: "string \<Rightarrow> rat option" where
  "read_decimal s =
     (let whole = takeWhile (\<lambda>c. c \<noteq> CHR ''.'') s;
          rest = dropWhile (\<lambda>c. c \<noteq> CHR ''.'') s
      in case read_nat whole of
           None \<Rightarrow> None
         | Some w \<Rightarrow>
             (if rest = [] then Some (of_nat w)
              else case read_nat (tl rest) of
                     None \<Rightarrow> None
                   | Some f \<Rightarrow> Some (of_nat w + of_nat f / 10 ^ length (tl rest))))"

section \<open>Mars weather\<close>

subsection \<open>Fetching\<close>

text \<open>
  \<^verbatim>\<open>def fetch_nasa_data(url, params=None):
      try:
          response = requests.get(url, params=params)
          response.raise_for_status()
          return response.json()
      except requests.exceptions.RequestException as e:
          st.error(f"Error fetching data: {e}")
          return None\<close>
  What the three calls in the \<^verbatim>\<open>try\<close> block do in one run is the input: they yield a parsed
  body, or raise an exception of class \<^verbatim>\<open>RequestException\<close> (a connection error, a timeout, an
  HTTP error status; also a body that is not JSON, since requests 2.27), or raise an exception
  of another class (a body that is not JSON, with an older requests). The result is \<open>None\<close>
  when the exception leaves the function.
\<close>

datatype http_outcome = Body json | RequestException | OtherException

fun fetch_nasa_data :: "http_outcome \<Rightarrow> json option" where
  "fetch_nasa_data (Body j) = Some j"
| "fetch_nasa_data RequestException = Some JNull"
| "fetch_nasa_data OtherException = None"

text \<open>The sample data of \<^verbatim>\<open>get_mars_weather\<close>.\<close>

definition sample_data :: json where
  "sample_data = JObj [
     (''sol_keys'', JArr [JStr ''259'', JStr ''260'', JStr ''261'', JStr ''262'', JStr ''263'',
                          JStr ''264'', JStr ''265'']),
     (''259'', JObj [
        (''AT'', JObj [(''av'', JNum (- 77064 / 1000)), (''ct'', JNum 152488),
                       (''mn'', JNum (- 99429 / 1000)), (''mx'', JNum (- 13668 / 1000))]),
        (''HWS'', JObj [(''av'', JNum (4563 / 1000)), (''ct'', JNum 74455),
                        (''mn'', JNum (156 / 1000)), (''mx'', JNum (17617 / 1000))]),
        (''PRE'', JObj [(''av'', JNum (761006 / 1000)), (''ct'', JNum 144432),
                        (''mn'', JNum (7421498 / 10000)), (''mx'', JNum (7803891 / 10000))]),
        (''WD'', JObj [
           (''most_common'', JObj [(''compass_degrees'', JNum (2025 / 10)),
              (''compass_point'', JStr ''SSW''), (''compass_right'', JNum (- 382684 / 1000000)),
              (''compass_up'', JNum (- 923879 / 1000000)), (''ct'', JNum 11582)]),
           (''1'', JObj [(''compass_degrees'', JNum (2025 / 10)),
              (''compass_point'', JStr ''SSW''), (''compass_right'', JNum (- 382684 / 1000000)),
              (''compass_up'', JNum (- 923879 / 1000000)), (''ct'', JNum 11582)]),
           (''2'', JObj [(''compass_degrees'', JNum 180),
              (''compass_point'', JStr ''S''), (''compass_right'', JNum 0),
              (''compass_up'', JNum (- 1)), (''ct'', JNum 10306)]),
           (''3'', JObj [(''compass_degrees'', JNum 225),
              (''compass_point'', JStr ''SW''), (''compass_right'', JNum (- 707107 / 1000000)),
              (''compass_up'', JNum (- 707107 / 1000000)), (''ct'', JNum 9936)])]),
        (''First_UTC'', JStr ''2019-08-19T08:03:59Z''),
        (''Last_UTC'', JStr ''2019-08-20T08:43:34Z''),
        (''Season'', JStr ''winter'')]),
     (''validity_checks'', JObj [
        (''259'', JObj [(''AT'', JStr ''Pass''), (''HWS'', JStr ''Pass''),
                        (''PRE'', JStr ''Pass''), (''WD'', JStr ''Pass'')])])]"

text \<open>
  \<^verbatim>\<open>def get_mars_weather(api_key):
      ...
      try:
          data = fetch_nasa_data(url, params)
          return data
      except:
          st.warning("Using archived sample data ...")
          return { ...sample data... }\<close>
\<close>

definition get_mars_weather :: "http_outcome \<Rightarrow> json" where
  "get_mars_weather h = (case fetch_nasa_data h of Some data \<Rightarrow> data | None \<Rightarrow> sample_data)"

subsection \<open>The sol loop\<close>

record weather_row =
  Sol :: int
  Earth_Date :: json
  Season :: json
  Avg_Temp :: json
  Min_Temp :: json
  Max_Temp :: json
  Avg_Pressure :: json
  Avg_Wind_Speed :: json
  Max_Wind_Speed :: json

text \<open>
  \<^verbatim>\<open>temp_data = sol_data.get("AT", {})
  pressure_data = sol_data.get("PRE", {})
  wind_data = sol_data.get("HWS", {})
  row = {"Sol": int(sol),
         "Earth Date": sol_data.get("First_UTC", "Unknown"),
         "Season": sol_data.get("Season", "Unknown"),
         "Avg Temp": temp_data.get("av"), "Min Temp": temp_data.get("mn"),
         "Max Temp": temp_data.get("mx"), "Avg Pressure (Pa)": pressure_data.get("av"),
         "Avg Wind Speed (m/s)": wind_data.get("av"), "Max Wind Speed (m/s)": wind_data.get("mx")}\<close>
\<close>

definition make_row :: "(string \<Rightarrow> int option) \<Rightarrow> json \<Rightarrow> json \<Rightarrow> weather_row result" where
  "make_row rd sol sol_data =
     bind_res (py_get sol_data ''AT'' (JObj [])) (\<lambda>temp_data.
     bind_res (py_get sol_data ''PRE'' (JObj [])) (\<lambda>pressure_data.
     bind_res (py_get sol_data ''HWS'' (JObj [])) (\<lambda>wind_data.
     bind_res (py_int rd sol) (\<lambda>v_sol.
     bind_res (py_get sol_data ''First_UTC'' (JStr ''Unknown'')) (\<lambda>v_date.
     bind_res (py_get sol_data ''Season'' (JStr ''Unknown'')) (\<lambda>v_season.
     bind_res (py_get temp_data ''av'' JNull) (\<lambda>t_av.
     bind_res (py_get temp_data ''mn'' JNull) (\<lambda>t_mn.
     bind_res (py_get temp_data ''mx'' JNull) (\<lambda>t_mx.
     bind_res (py_get pressure_data ''av'' JNull) (\<lambda>p_av.
     bind_res (py_get wind_data ''av'' JNull) (\<lambda>w_av.
     bind_res (py_get wind_data ''mx'' JNull) (\<lambda>w_mx.
     Inr \<lparr> Sol = v_sol, Earth_Date = v_date, Season = v_season,
           Avg_Temp = t_av, Min_Temp = t_mn, Max_Temp = t_mx,
           Avg_Pressure = p_av, Avg_Wind_Speed = w_av, Max_Wind_Speed = w_mx \<rparr>))))))))))))"

text \<open>\<^verbatim>\<open>sol in weather_data\<close>, for the dict \<^verbatim>\<open>weather_data\<close>: a list or a dict cannot be
  hashed; a string is looked up among the keys; no other value equals a string key.\<close>

fun in_dict :: "json \<Rightarrow> (string \<times> json) list \<Rightarrow> bool result" where
  "in_dict (JStr s) kvs = Inr (map_of kvs s \<noteq> None)"
| "in_dict (JArr xs) kvs = Inl TypeError"
| "in_dict (JObj ys) kvs = Inl TypeError"
| "in_dict _ kvs = Inr False"

text \<open>\<^verbatim>\<open>weather_data[sol]\<close>, for the dict \<^verbatim>\<open>weather_data\<close>.\<close>

fun dict_item :: "(string \<times> json) list \<Rightarrow> json \<Rightarrow> json result" where
  "dict_item kvs (JStr s) = (case map_of kvs s of None \<Rightarrow> Inl KeyError | Some v \<Rightarrow> Inr v)"
| "dict_item kvs (JArr xs) = Inl TypeError"
| "dict_item kvs (JObj ys) = Inl TypeError"
| "dict_item kvs _ = Inl KeyError"

text \<open>
  \<^verbatim>\<open>for sol in sols:
      if sol in weather_data:
          sol_data = weather_data[sol]
          ...
          weather_df = pd.concat([weather_df, pd.DataFrame([row])], ignore_index=True)\<close>
  The result is the list of the rows appended, in order.
\<close>

fun sol_loop :: "(string \<Rightarrow> int option) \<Rightarrow> (string \<times> json) list \<Rightarrow> json list
    \<Rightarrow> weather_row list result" where
  "sol_loop rd wd [] = Inr []"
| "sol_loop rd wd (sol # sols) =
     bind_res (in_dict sol wd) (\<lambda>present.
       if present then
         bind_res (dict_item wd sol) (\<lambda>sol_data.
         bind_res (make_row rd sol sol_data) (\<lambda>row.
         bind_res (sol_loop rd wd sols) (\<lambda>rows. Inr (row # rows))))
       else sol_loop rd wd sols)"

text \<open>\<^verbatim>\<open>"sol_keys" in weather_data\<close>, whatever \<^verbatim>\<open>weather_data\<close> is: a key of a dict, an
  element of a list, a substring of a string.\<close>

fun starts_with :: "string \<Rightarrow> string \<Rightarrow> bool" where
  "starts_with [] t = True"
| "starts_with (c # cs) [] = False"
| "starts_with (c # cs) (d # ds) = (c = d \<and> starts_with cs ds)"

fun substring_of :: "string \<Rightarrow> string \<Rightarrow> bool" where
  "substring_of s [] = (s = [])"
| "substring_of s (d # ds) = (starts_with s (d # ds) \<or> substring_of s ds)"

fun str_in :: "string \<Rightarrow> json \<Rightarrow> bool result" where
  "str_in s (JObj kvs) = Inr (map_of kvs s \<noteq> None)"
| "str_in s (JArr xs) = Inr (JStr s \<in> set xs)"
| "str_in s (JStr t) = Inr (substring_of s t)"
| "str_in s _ = Inl TypeError"

text \<open>\<^verbatim>\<open>sols = weather_data["sol_keys"]\<close> and the loop over it.\<close>

fun weather_rows :: "(string \<Rightarrow> int option) \<Rightarrow> json \<Rightarrow> weather_row list result" where
  "weather_rows rd (JObj wd) =
     (case map_of wd ''sol_keys'' of
        None \<Rightarrow> Inl KeyError
      | Some sols \<Rightarrow> bind_res (py_iter sols) (sol_loop rd wd))"
| "weather_rows rd _ = Inl TypeError"

text \<open>
  \<^verbatim>\<open>if weather_data and "sol_keys" in weather_data: ... else: st.error("Unable to retrieve ...")\<close>
  The result is \<open>Some\<close> of the rows the loop has built, or \<open>None\<close> when the page takes the
  \<^verbatim>\<open>else\<close> branch and builds no row. The pandas and plotting calls that follow the loop are
  not modelled.
\<close>

definition weather_page :: "(string \<Rightarrow> int option) \<Rightarrow> json \<Rightarrow> weather_row list option result" where
  "weather_page rd weather_data =
     (if truthy weather_data then
        bind_res (str_in ''sol_keys'' weather_data) (\<lambda>listed.
          if listed then bind_res (weather_rows rd weather_data) (\<lambda>rows. Inr (Some rows))
          else Inr None)
      else Inr None)"

text \<open>\<^verbatim>\<open>len(x)\<close> of a list, a string or a dict, as the number of entries of \<^verbatim>\<open>sol_keys\<close>.\<close>

fun py_len :: "json \<Rightarrow> nat" where
  "py_len (JArr xs) = length xs"
| "py_len (JStr s) = length s"
| "py_len (JObj kvs) = length kvs"
| "py_len _ = 0"

text \<open>Whether the payload holds a data block under a sol identifier; whether a sensor entry of
  a data block is missing or an object; a value that may be missing, as Python's \<^verbatim>\<open>None\<close>.\<close>

fun has_block :: "json \<Rightarrow> json \<Rightarrow> bool" where
  "has_block weather_data (JStr s) = (field weather_data s \<noteq> None)"
| "has_block weather_data _ = False"



section \<open>Rover photos: the camera filter\<close>

text \<open>\<^verbatim>\<open>photo["camera"]["name"]\<close>\<close>

definition camera_name :: "json \<Rightarrow> json result" where
  "camera_name photo = subscripts photo [''camera'', ''name'']"

text \<open>
  \<^verbatim>\<open>cameras = list(set(photo["camera"]["name"] for photo in photos))\<close>
  Every name goes into a set, so it must be hashable: a list or a dict raises TypeError.
  \<open>camera_names\<close> is the sequence of names the generator yields.
\<close>

fun hashable :: "json \<Rightarrow> bool" where
  "hashable (JArr xs) = False"
| "hashable (JObj kvs) = False"
| "hashable _ = True"

fun camera_names :: "json list \<Rightarrow> json list result" where
  "camera_names [] = Inr []"
| "camera_names (photo # photos) =
     bind_res (camera_name photo) (\<lambda>n.
       if hashable n then bind_res (camera_names photos) (\<lambda>ns. Inr (n # ns))
       else Inl TypeError)"

text \<open>\<^verbatim>\<open>x == y\<close> where \<open>y\<close> is hashable (an option of the select box): numbers and
  booleans compare by value, strings and \<^verbatim>\<open>None\<close> only with their own kind, and a list or a
  dict equals none of them.\<close>

fun py_eq :: "json \<Rightarrow> json \<Rightarrow> bool" where
  "py_eq JNull JNull = True"
| "py_eq (JBool a) (JBool b) = (a = b)"
| "py_eq (JBool a) (JNum r) = ((if a then 1 else 0) = r)"
| "py_eq (JNum r) (JBool a) = (r = (if a then 1 else 0))"
| "py_eq (JNum a) (JNum b) = (a = b)"
| "py_eq (JStr s) (JStr t) = (s = t)"
| "py_eq _ _ = False"

text \<open>\<^verbatim>\<open>[photo for photo in photos if photo["camera"]["name"] == selected_camera]\<close>\<close>

fun select_camera :: "json \<Rightarrow> json list \<Rightarrow> json list result" where
  "select_camera sel [] = Inr []"
| "select_camera sel (photo # photos) =
     bind_res (camera_name photo) (\<lambda>n.
     bind_res (select_camera sel photos) (\<lambda>rest.
       Inr (if py_eq n sel then photo # rest else rest)))"

text \<open>
  \<^verbatim>\<open>if selected_camera != "All":
      photos = [photo for photo in photos if photo["camera"]["name"] == selected_camera]\<close>
\<close>

definition camera_filter :: "json \<Rightarrow> json list \<Rightarrow> json list result" where
  "camera_filter selected_camera photos =
     (if \<not> py_eq selected_camera (JStr ''All'') then select_camera selected_camera photos
      else Inr photos)"

text \<open>Whether a photo's camera name is read without an exception and equals the selector.\<close>

definition has_camera :: "json \<Rightarrow> json \<Rightarrow> bool" where
  "has_camera sel photo = (case camera_name photo of Inl e \<Rightarrow> False | Inr n \<Rightarrow> py_eq n sel)"

section \<open>EPIC image URL\<close>

text \<open>\<^verbatim>\<open>s.split(sep)\<close> for a separator of one character, and \<^verbatim>\<open>s.replace("-", "/")\<close>.\<close>

fun split_on :: "char \<Rightarrow> string \<Rightarrow> string list" where
  "split_on sep [] = [[]]"
| "split_on sep (c # cs) =
     (if c = sep then [] # split_on sep cs
      else (case split_on sep cs of [] \<Rightarrow> [[c]] | w # ws \<Rightarrow> (c # w) # ws))"

definition replace_dash :: "string \<Rightarrow> string" where
  "replace_dash s = map (\<lambda>c. if c = CHR ''-'' then CHR ''/'' else c) s"

text \<open>\<^verbatim>\<open>x.split(" ")\<close>: only a string has the method.\<close>

fun py_split :: "char \<Rightarrow> json \<Rightarrow> string list result" where
  "py_split sep (JStr s) = Inr (split_on sep s)"
| "py_split sep _ = Inl AttributeError"

text \<open>\<^verbatim>\<open>xs[i]\<close> on a list of strings, for \<open>i \<ge> 0\<close>.\<close>

definition item :: "string list \<Rightarrow> nat \<Rightarrow> string result" where
  "item xs i = (if i < length xs then Inr (xs ! i) else Inl IndexError)"

text \<open>A value inside an f-string: a string is inserted as it is; how Python prints a value
  of another type is the parameter \<open>fmt\<close>.\<close>

fun py_format :: "(json \<Rightarrow> string) \<Rightarrow> json \<Rightarrow> string" where
  "py_format fmt (JStr s) = s"
| "py_format fmt j = fmt j"

text \<open>\<^verbatim>\<open>image_type_param = "natural" if image_type == "Natural Color" else "enhanced"\<close>\<close>

definition image_type_param :: "string \<Rightarrow> string" where
  "image_type_param image_type = (if image_type = ''Natural Color'' then ''natural'' else ''enhanced'')"

text \<open>
  \<^verbatim>\<open>image_date = selected_image["date"].split(" ")[0].replace("-", "/")
  image_time = selected_image["date"].split(" ")[1].split(".")[0]
  image_id = selected_image["identifier"]
  image_url = f"https://api.nasa.gov/EPIC/archive/{image_type_param}/{image_date}/png/{image_id}.png?api_key={api_key}"\<close>
\<close>

definition image_date :: "json \<Rightarrow> string result" where
  "image_date selected_image =
     bind_res (subscript selected_image ''date'') (\<lambda>d.
     bind_res (py_split CHR '' '' d) (\<lambda>parts.
     bind_res (item parts 0) (\<lambda>p. Inr (replace_dash p))))"

definition image_time :: "json \<Rightarrow> string result" where
  "image_time selected_image =
     bind_res (subscript selected_image ''date'') (\<lambda>d.
     bind_res (py_split CHR '' '' d) (\<lambda>parts.
     bind_res (item parts 1) (\<lambda>p. item (split_on CHR ''.'' p) 0)))"

definition image_url :: "(json \<Rightarrow> string) \<Rightarrow> string \<Rightarrow> string \<Rightarrow> json \<Rightarrow> string result" where
  "image_url fmt type_param api_key selected_image =
     bind_res (image_date selected_image) (\<lambda>v_date.
     bind_res (image_time selected_image) (\<lambda>v_time.
     bind_res (subscript selected_image ''identifier'') (\<lambda>image_id.
     Inr (''https://api.nasa.gov/EPIC/archive/'' @ type_param @ ''/'' @ v_date @ ''/png/''
          @ py_format fmt image_id @ ''.png?api_key='' @ api_key))))"

section \<open>Example payloads\<close>

text \<open>Payloads of the shape the NEO feed and the weather service return, as inputs on which
  the normalizers are run below.\<close>

definition mk_approach :: "string \<Rightarrow> string \<Rightarrow> string \<Rightarrow> json" where
  "mk_approach day km kph =
     JObj [(''close_approach_date'', JStr day),
           (''relative_velocity'', JObj [(''kilometers_per_second'', JStr ''12''),
                                          (''kilometers_per_hour'', JStr kph)]),
           (''miss_distance'', JObj [(''lunar'', JStr ''40''), (''kilometers'', JStr km)]),
           (''orbiting_body'', JStr ''Earth'')]"

definition mk_neo :: "string \<Rightarrow> rat \<Rightarrow> rat \<Rightarrow> bool \<Rightarrow> json list \<Rightarrow> json" where
  "mk_neo ident lo hi hazardous approaches =
     JObj [(''id'', JStr ident),
           (''name'', JStr (''('' @ ident @ '')'')),
           (''estimated_diameter'',
              JObj [(''kilometers'', JObj [(''estimated_diameter_min'', JNum lo),
                                            (''estimated_diameter_max'', JNum hi)]),
                    (''meters'', JObj [(''estimated_diameter_min'', JNum (1000 * lo)),
                                        (''estimated_diameter_max'', JNum (1000 * hi))])]),
           (''is_potentially_hazardous_asteroid'', JBool hazardous),
           (''close_approach_data'', JArr approaches)]"

definition example_feed :: json where
  "example_feed =
     JObj [(''element_count'', JNum 3),
           (''near_earth_objects'', JObj [
              (''2024-01-01'', JArr [
                 mk_neo ''3542519'' (1 / 10) (3 / 10) False
                   [mk_approach ''2024-01-01'' ''7500000.5'' ''48000.25''],
                 mk_neo ''2465633'' (2 / 10) (5 / 10) True
                   [mk_approach ''2024-01-01'' ''1200000'' ''65000.5'',
                    mk_approach ''2024-01-06'' ''900000'' ''70000'']]),
              (''2024-01-03'', JArr [
                 mk_neo ''54016476'' (1 / 100) (2 / 100) False
                   [mk_approach ''2024-01-03'' ''33000000.75'' ''21000'']])])]"

definition example_feed_no_approach :: json where
  "example_feed_no_approach =
     JObj [(''element_count'', JNum 2),
           (''near_earth_objects'', JObj [
              (''2024-01-01'', JArr [
                 mk_neo ''3542519'' (1 / 10) (3 / 10) False
                   [mk_approach ''2024-01-01'' ''7500000.5'' ''48000.25''],
                 mk_neo ''2465633'' (2 / 10) (5 / 10) True []])])]"


section \<open>Properties of the grid\<close>

lemma rows_from_unfold:
  "i < length xs \<Longrightarrow> rows_from i xs = take cols (drop i xs) # rows_from (i + cols) xs"
  by simp

lemma rows_from_done: "length xs \<le> i \<Longrightarrow> rows_from i xs = []"
  by simp

declare rows_from.simps [simp del]

lemma concat_rows_from: "concat (rows_from i xs) = drop i xs"
proof (induction i xs rule: rows_from.induct)
  case (1 i xs)
  show ?case
  proof (cases "i < length xs")
    case True
    have "concat (rows_from i xs) = take cols (drop i xs) @ drop (i + cols) xs"
      using True 1 by (simp add: rows_from_unfold)
    also have "drop (i + cols) xs = drop cols (drop i xs)"
      by (simp add: add.commute)
    also have "take cols (drop i xs) @ drop cols (drop i xs) = drop i xs"
      by (rule append_take_drop_id)
    finally show ?thesis .
  next
    case False
    then show ?thesis by (simp add: rows_from_done)
  qed
qed

lemma length_rows_from: "length (rows_from i xs) = (length xs - i + 2) div 3"
proof (induction i xs rule: rows_from.induct)
  case (1 i xs)
  show ?case
  proof (cases "i < length xs")
    case True
    have "length (rows_from i xs) = Suc ((length xs - (i + 3) + 2) div 3)"
      using True 1 by (simp add: rows_from_unfold cols_def)
    also have "\<dots> = (length xs - i + 2) div 3"
      using True by presburger
    finally show ?thesis .
  next
    case False
    then show ?thesis by (simp add: rows_from_done)
  qed
qed

lemma rows_from_nth:
  "k < length (rows_from i xs) \<Longrightarrow> rows_from i xs ! k = take 3 (drop (i + 3 * k) xs)"
proof (induction i xs arbitrary: k rule: rows_from.induct)
  case (1 i xs)
  show ?case
  proof (cases "i < length xs")
    case True
    show ?thesis
    proof (cases k)
      case 0
      then show ?thesis using True by (simp add: rows_from_unfold cols_def)
    next
      case (Suc j)
      have "j < length (rows_from (i + cols) xs)"
        using "1.prems" True Suc by (simp add: rows_from_unfold)
      then have "rows_from (i + cols) xs ! j = take 3 (drop (i + cols + 3 * j) xs)"
        using "1.IH" True by blast
      then show ?thesis
        using True Suc by (simp add: rows_from_unfold cols_def add.assoc)
    qed
  next
    case False
    then show ?thesis using "1.prems" by (simp add: rows_from_done)
  qed
qed

text \<open>
  C7. Grouping a sequence of length L into rows of 3 gives ceil(L/3) rows (the value the EPIC
  page computes as \<open>rows_needed\<close>), every row is non-empty, every row but the last has exactly
  3 elements (the last has at most 3), and the rows concatenated in order are the sequence.
\<close>

theorem grid_rows_partition:
  "length (grid_rows xs) = (length xs + 2) div 3
   \<and> length (grid_rows xs) = rows_needed xs
   \<and> 3 * length (grid_rows xs) < length xs + 3
   \<and> length xs \<le> 3 * length (grid_rows xs)
   \<and> (\<forall>k < length (grid_rows xs). grid_rows xs ! k \<noteq> [] \<and> length (grid_rows xs ! k) \<le> 3)
   \<and> (\<forall>k. Suc k < length (grid_rows xs) \<longrightarrow> length (grid_rows xs ! k) = 3)
   \<and> concat (grid_rows xs) = xs"
proof -
  have len: "length (grid_rows xs) = (length xs + 2) div 3"
    by (simp add: grid_rows_def length_rows_from)
  have need: "length (grid_rows xs) = rows_needed xs"
    by (simp add: len rows_needed_def cols_def)
  have ceil1: "3 * length (grid_rows xs) < length xs + 3"
    unfolding len by presburger
  have ceil2: "length xs \<le> 3 * length (grid_rows xs)"
    unfolding len by presburger
  have row: "grid_rows xs ! k = take 3 (drop (3 * k) xs)" if "k < length (grid_rows xs)" for k
    using that rows_from_nth [of k 0 xs] by (simp add: grid_rows_def)
  have nonempty: "grid_rows xs ! k \<noteq> [] \<and> length (grid_rows xs ! k) \<le> 3"
    if "k < length (grid_rows xs)" for k
  proof -
    have "3 * k < length xs" using that unfolding len by presburger
    then show ?thesis using row [OF that] by simp
  qed
  have full: "length (grid_rows xs ! k) = 3" if "Suc k < length (grid_rows xs)" for k
  proof -
    have "3 * k + 3 \<le> length xs" using that unfolding len by presburger
    moreover have "k < length (grid_rows xs)" using that by simp
    ultimately show ?thesis using row [of k] by simp
  qed
  have cat: "concat (grid_rows xs) = xs"
    by (simp add: grid_rows_def concat_rows_from)
  from len need ceil1 ceil2 nonempty full cat show ?thesis by blast
qed

theorem grid_rows_partition_witness:
  "grid_rows [1, 2, 3, 4, 5, 6, 7 :: nat] = [[1, 2, 3], [4, 5, 6], [7]]
   \<and> length (grid_rows [1, 2, 3, 4, 5, 6, 7 :: nat]) = 3
   \<and> concat (grid_rows [1, 2, 3, 4, 5, 6, 7 :: nat]) = [1, 2, 3, 4, 5, 6, 7]
   \<and> length (grid_rows [1, 2, 3, 4, 5, 6, 7 :: nat] ! 0) = 3"
proof -
  have g: "grid_rows [1, 2, 3, 4, 5, 6, 7 :: nat] = [[1, 2, 3], [4, 5, 6], [7]]"
    by (simp add: grid_rows_def rows_from.simps cols_def)
  have "Suc 0 < length (grid_rows [1, 2, 3, 4, 5, 6, 7 :: nat])"
    unfolding g by simp
  with grid_rows_partition [of "[1, 2, 3, 4, 5, 6, 7 :: nat]"] g show ?thesis
    by simp
qed

section \<open>Results of fallible steps\<close>

lemma bind_res_Inr [simp]: "bind_res (Inr x) f = f x"
  by (simp add: bind_res_def)

lemma bind_res_Inl [simp]: "bind_res (Inl e) f = Inl e"
  by (simp add: bind_res_def)

lemma bind_res_eq_Inr: "bind_res m f = Inr y \<longleftrightarrow> (\<exists>x. m = Inr x \<and> f x = Inr y)"
  by (cases m) simp_all

lemma bind_res_eq_Inl:
  "bind_res m f = Inl e \<longleftrightarrow> m = Inl e \<or> (\<exists>x. m = Inr x \<and> f x = Inl e)"
  by (cases m) simp_all

lemma subscript_Inr_iff: "subscript j k = Inr v \<longleftrightarrow> field j k = Some v"
  by (cases j) (simp_all split: option.splits)

lemma subscripts_Inr_iff: "subscripts j ks = Inr v \<longleftrightarrow> field_path j ks = Some v"
proof (induction ks arbitrary: j)
  case Nil
  show ?case by simp
next
  case (Cons k ks)
  show ?case
  proof (cases "field j k")
    case None
    then have "\<And>w. subscript j k \<noteq> Inr w" by (simp add: subscript_Inr_iff)
    then show ?thesis using None by (simp add: bind_res_eq_Inr)
  next
    case (Some w)
    then have "subscript j k = Inr w" by (simp add: subscript_Inr_iff)
    then show ?thesis using Some Cons.IH by simp
  qed
qed

lemma py_eq_JStr: "py_eq x (JStr t) \<longleftrightarrow> x = JStr t"
  by (cases x) auto

section \<open>The date range\<close>

text \<open>
  C5. When the selected end date is more than 7 days after the start date, the dates of the
  request are the start date and the start date plus exactly 7 days; when the difference is
  at most 7 days, both dates are used unchanged.
\<close>

theorem clamp_range_spec:
  "(end_date - start_date > 7 \<longrightarrow>
      clamp_range start_date end_date = (start_date, start_date + 7)
      \<and> snd (clamp_range start_date end_date) - fst (clamp_range start_date end_date) = 7)
   \<and> (end_date - start_date \<le> 7 \<longrightarrow>
      clamp_range start_date end_date = (start_date, end_date))"
  by (simp add: clamp_range_def Let_def)

theorem clamp_range_spec_witness:
  "clamp_range 738886 738900 = (738886, 738893) \<and> clamp_range 738886 738889 = (738886, 738889)"
  using clamp_range_spec [where start_date = 738886 and end_date = 738900]
    clamp_range_spec [where start_date = 738886 and end_date = 738889]
  by simp

section \<open>The camera filter\<close>

lemma camera_names_Cons:
  "camera_names (photo # photos) = Inr names \<Longrightarrow>
     \<exists>n ns. camera_name photo = Inr n \<and> camera_names photos = Inr ns"
  by (auto simp: bind_res_eq_Inr split: if_splits)

lemma select_camera_filter:
  "camera_names photos = Inr names \<Longrightarrow>
     select_camera sel photos = Inr (filter (has_camera sel) photos)"
proof (induction photos arbitrary: names)
  case Nil
  show ?case by simp
next
  case (Cons photo photos)
  from camera_names_Cons [OF Cons.prems] obtain n ns
    where n: "camera_name photo = Inr n" and ns: "camera_names photos = Inr ns"
    by blast
  have "select_camera sel photos = Inr (filter (has_camera sel) photos)"
    using Cons.IH ns by blast
  moreover have "has_camera sel photo = py_eq n sel"
    using n by (simp add: has_camera_def)
  ultimately show ?case using n by simp
qed

text \<open>
  C8. The camera filter with the selector "All" returns the photo sequence unchanged. With any
  other selector it returns the photos whose camera name equals the selector, in their original
  order (on the page every photo's camera name has been read already, to fill the select box:
  that is the hypothesis on \<open>camera_names\<close>).
\<close>

theorem camera_filter_spec:
  "camera_filter (JStr ''All'') photos = Inr photos
   \<and> (\<forall>sel names. sel \<noteq> JStr ''All'' \<and> camera_names photos = Inr names \<longrightarrow>
        camera_filter sel photos = Inr (filter (has_camera sel) photos))"
proof -
  have "camera_filter (JStr ''All'') photos = Inr photos"
    by (simp add: camera_filter_def)
  moreover have "camera_filter sel photos = Inr (filter (has_camera sel) photos)"
    if "sel \<noteq> JStr ''All''" and "camera_names photos = Inr names" for sel names
    using that select_camera_filter [of photos names sel]
    by (simp add: camera_filter_def py_eq_JStr)
  ultimately show ?thesis by blast
qed

theorem camera_filter_spec_witness:
  "camera_filter (JStr ''NAVCAM'')
     [JObj [(''id'', JNum 1), (''camera'', JObj [(''name'', JStr ''FHAZ'')])],
      JObj [(''id'', JNum 2), (''camera'', JObj [(''name'', JStr ''NAVCAM'')])],
      JObj [(''id'', JNum 3), (''camera'', JObj [(''name'', JStr ''FHAZ'')])],
      JObj [(''id'', JNum 4), (''camera'', JObj [(''name'', JStr ''NAVCAM'')])]]
   = Inr [JObj [(''id'', JNum 2), (''camera'', JObj [(''name'', JStr ''NAVCAM'')])],
          JObj [(''id'', JNum 4), (''camera'', JObj [(''name'', JStr ''NAVCAM'')])]]"
proof -
  let ?photos = "[JObj [(''id'', JNum 1), (''camera'', JObj [(''name'', JStr ''FHAZ'')])],
      JObj [(''id'', JNum 2), (''camera'', JObj [(''name'', JStr ''NAVCAM'')])],
      JObj [(''id'', JNum 3), (''camera'', JObj [(''name'', JStr ''FHAZ'')])],
      JObj [(''id'', JNum 4), (''camera'', JObj [(''name'', JStr ''NAVCAM'')])]]"
  have names: "camera_names ?photos
      = Inr [JStr ''FHAZ'', JStr ''NAVCAM'', JStr ''FHAZ'', JStr ''NAVCAM'']"
    by (simp add: camera_name_def)
  have sel: "JStr ''NAVCAM'' \<noteq> JStr ''All''" by simp
  note inst = camera_filter_spec [of ?photos, THEN conjunct2, THEN spec, THEN spec, THEN mp]
  have "camera_filter (JStr ''NAVCAM'') ?photos
      = Inr (filter (has_camera (JStr ''NAVCAM'')) ?photos)"
    by (rule inst [OF conjI [OF sel names]])
  then show ?thesis by (simp add: has_camera_def camera_name_def)
qed

section \<open>The EPIC image URL\<close>

lemma split_on_nonempty: "split_on sep s \<noteq> []"
  by (induction s) (auto split: list.splits)

lemma split_on_prefix:
  "sep \<notin> set p \<Longrightarrow> split_on sep (p @ sep # t) = p # split_on sep t"
  by (induction p) auto

text \<open>The URL is a function of the date string, the identifier and the type selector alone:
  with a date string \<open>d t\<close> (date, one space, the rest) and a string identifier it is the
  template filled in order.\<close>

lemma image_url_template:
  assumes "field img ''date'' = Some (JStr (d @ CHR '' '' # t))"
    and "CHR '' '' \<notin> set d"
    and "field img ''identifier'' = Some (JStr ident)"
  shows "image_url fmt ty api_key img =
     Inr (''https://api.nasa.gov/EPIC/archive/'' @ ty @ ''/'' @ replace_dash d @ ''/png/''
          @ ident @ ''.png?api_key='' @ api_key)"
proof -
  have dt: "subscript img ''date'' = Inr (JStr (d @ CHR '' '' # t))"
    using assms(1) by (simp add: subscript_Inr_iff)
  have idt: "subscript img ''identifier'' = Inr (JStr ident)"
    using assms(3) by (simp add: subscript_Inr_iff)
  have parts: "split_on CHR '' '' (d @ CHR '' '' # t) = d # split_on CHR '' '' t"
    using assms(2) by (rule split_on_prefix)
  have "split_on CHR '' '' t \<noteq> []" by (rule split_on_nonempty)
  then obtain w ws where rest: "split_on CHR '' '' t = w # ws"
    by (cases "split_on CHR '' '' t") auto
  have "split_on CHR ''.'' w \<noteq> []" by (rule split_on_nonempty)
  then obtain u us where tm: "split_on CHR ''.'' w = u # us"
    by (cases "split_on CHR ''.'' w") auto
  have date: "image_date img = Inr (replace_dash d)"
    by (simp add: image_date_def dt parts item_def)
  have time: "image_time img = Inr u"
    by (simp add: image_time_def dt parts rest tm item_def)
  show ?thesis
    by (simp add: image_url_def date time idt)
qed

text \<open>
  C3. For an image descriptor whose date string has the date component 2023-07-14 and whose
  identifier is 20230714001751_01, under the image type natural, the URL built is
  \<^verbatim>\<open>https://api.nasa.gov/EPIC/archive/natural/2023/07/14/png/20230714001751_01.png\<close> followed
  by the \<^verbatim>\<open>api_key\<close> query parameter: the path segments in that order, the date segments
  zero-padded as in the descriptor. Nothing else of the descriptor, and no state, enters.
\<close>

theorem epic_url_example:
  assumes "field img ''date'' = Some (JStr (''2023-07-14 '' @ t))"
    and "field img ''identifier'' = Some (JStr ''20230714001751_01'')"
  shows "image_url fmt (image_type_param ''Natural Color'') api_key img =
     Inr (''https://api.nasa.gov/EPIC/archive/natural/2023/07/14/png/20230714001751_01.png?api_key=''
          @ api_key)"
proof -
  have "field img ''date'' = Some (JStr (''2023-07-14'' @ CHR '' '' # t))"
    using assms(1) by simp
  moreover have "CHR '' '' \<notin> set ''2023-07-14''" by simp
  ultimately have "image_url fmt (image_type_param ''Natural Color'') api_key img =
     Inr (''https://api.nasa.gov/EPIC/archive/'' @ image_type_param ''Natural Color'' @ ''/''
          @ replace_dash ''2023-07-14'' @ ''/png/'' @ ''20230714001751_01''
          @ ''.png?api_key='' @ api_key)"
    using assms(2) by (rule image_url_template)
  then show ?thesis by (simp add: image_type_param_def replace_dash_def)
qed

theorem epic_url_example_witness:
  "image_url (\<lambda>j. []) (image_type_param ''Natural Color'') ''DEMO_KEY''
     (JObj [(''identifier'', JStr ''20230714001751_01''),
            (''caption'', JStr ''This image was taken by the EPIC camera''),
            (''date'', JStr ''2023-07-14 00:22:40''),
            (''centroid_coordinates'', JObj [(''lat'', JNum 19), (''lon'', JNum 175)])])
   = Inr ''https://api.nasa.gov/EPIC/archive/natural/2023/07/14/png/20230714001751_01.png?api_key=DEMO_KEY''"
  using epic_url_example [of "JObj [(''identifier'', JStr ''20230714001751_01''),
            (''caption'', JStr ''This image was taken by the EPIC camera''),
            (''date'', JStr ''2023-07-14 00:22:40''),
            (''centroid_coordinates'', JObj [(''lat'', JNum 19), (''lon'', JNum 175)])]"
          "''00:22:40''" "\<lambda>j. []" "''DEMO_KEY''"]
  by simp

section \<open>Mars weather: the fetch and the sample data\<close>

lemma read_int_259: "read_int ''259'' = Some 259"
  by (simp add: read_int_def read_nat_def digit_of_def)

text \<open>When the \<^verbatim>\<open>except\<close> branch of \<^verbatim>\<open>get_mars_weather\<close> is taken, the sample data stands in
  and the loop builds one row, for sol 259, the only sol of \<^verbatim>\<open>sol_keys\<close> with a data block.\<close>

lemma sample_data_rows:
  "weather_rows read_int sample_data =
     Inr [\<lparr> Sol = 259, Earth_Date = JStr ''2019-08-19T08:03:59Z'', Season = JStr ''winter'',
            Avg_Temp = JNum (- 77064 / 1000), Min_Temp = JNum (- 99429 / 1000),
            Max_Temp = JNum (- 13668 / 1000), Avg_Pressure = JNum (761006 / 1000),
            Avg_Wind_Speed = JNum (4563 / 1000), Max_Wind_Speed = JNum (17617 / 1000) \<rparr>]"
  by (simp add: sample_data_def make_row_def read_int_259)

lemma other_exception_uses_sample:
  "get_mars_weather OtherException = sample_data"
  by (simp add: get_mars_weather_def)

text \<open>
  C1. The claim: whenever the fetch fails (service unreachable, malformed body), the weather
  pipeline takes the sample data as its input and still builds rows. What the code does when
  the request raises a \<^verbatim>\<open>RequestException\<close>: \<^verbatim>\<open>fetch_nasa_data\<close> catches it and returns
  \<^verbatim>\<open>None\<close>, so the handler of \<^verbatim>\<open>get_mars_weather\<close> never runs, the page receives
  \<^verbatim>\<open>None\<close> instead of the sample data and takes the branch that builds no row.
\<close>

theorem request_failure_bypasses_sample_data:
  "fetch_nasa_data RequestException = Some JNull
   \<and> get_mars_weather RequestException = JNull
   \<and> get_mars_weather RequestException \<noteq> sample_data
   \<and> weather_page rd (get_mars_weather RequestException) = Inr None"
  by (simp add: get_mars_weather_def weather_page_def sample_data_def)

section \<open>Mars weather: the sol loop\<close>

lemma in_dict_has_block: "in_dict sol wd = Inr b \<Longrightarrow> has_block (JObj wd) sol = b"
  by (cases sol) auto

lemma py_iter_length: "py_iter j = Inr xs \<Longrightarrow> length xs = py_len j"
  by (cases j) auto

lemma sol_loop_rows:
  "sol_loop rd wd sols = Inr rows \<Longrightarrow>
     list_all2 (\<lambda>row sol. \<exists>sol_data. dict_item wd sol = Inr sol_data
                              \<and> make_row rd sol sol_data = Inr row)
       rows (filter (has_block (JObj wd)) sols)"
proof (induction sols arbitrary: rows)
  case Nil
  then show ?case by simp
next
  case (Cons sol sols)
  from Cons.prems obtain present where p: "in_dict sol wd = Inr present"
    and body: "(if present then
         bind_res (dict_item wd sol) (\<lambda>sol_data.
         bind_res (make_row rd sol sol_data) (\<lambda>row.
         bind_res (sol_loop rd wd sols) (\<lambda>rows. Inr (row # rows))))
       else sol_loop rd wd sols) = Inr rows"
    by (auto simp: bind_res_eq_Inr)
  have hb: "has_block (JObj wd) sol = present"
    using p by (rule in_dict_has_block)
  show ?case
  proof (cases present)
    case True
    with body obtain sol_data row rows' where sd: "dict_item wd sol = Inr sol_data"
      and mr: "make_row rd sol sol_data = Inr row"
      and tl: "sol_loop rd wd sols = Inr rows'" and rows: "rows = row # rows'"
      by (auto simp: bind_res_eq_Inr)
    from Cons.IH [OF tl] sd mr rows hb True show ?thesis by auto
  next
    case False
    with body have "sol_loop rd wd sols = Inr rows" by simp
    from Cons.IH [OF this] hb False show ?thesis by simp
  qed
qed

text \<open>
  C4. Whenever the sol loop of a weather payload ends without an exception, its rows are, in order,
  the rows of exactly those sol identifiers of \<^verbatim>\<open>sol_keys\<close> under which the payload holds a
  data block: an identifier without a data block gives no row. So there are at most as many
  rows as \<^verbatim>\<open>sol_keys\<close> has entries.
\<close>

theorem sols_without_block_give_no_row:
  assumes "weather_rows rd weather_data = Inr rows"
  shows "\<exists>wd sol_keys sols.
           weather_data = JObj wd
           \<and> field weather_data ''sol_keys'' = Some sol_keys
           \<and> py_iter sol_keys = Inr sols
           \<and> list_all2 (\<lambda>row sol. \<exists>sol_data. dict_item wd sol = Inr sol_data
                                     \<and> make_row rd sol sol_data = Inr row)
                rows (filter (has_block weather_data) sols)
           \<and> length rows = length (filter (has_block weather_data) sols)
           \<and> length rows \<le> py_len sol_keys"
proof -
  from assms obtain wd where wd: "weather_data = JObj wd"
    by (cases weather_data) auto
  from assms wd obtain sol_keys where sk: "map_of wd ''sol_keys'' = Some sol_keys"
    and run: "bind_res (py_iter sol_keys) (sol_loop rd wd) = Inr rows"
    by (auto split: option.splits)
  from run obtain sols where it: "py_iter sol_keys = Inr sols"
    and loop: "sol_loop rd wd sols = Inr rows"
    by (auto simp: bind_res_eq_Inr)
  have corr: "list_all2 (\<lambda>row sol. \<exists>sol_data. dict_item wd sol = Inr sol_data
                                     \<and> make_row rd sol sol_data = Inr row)
                rows (filter (has_block weather_data) sols)"
    using sol_loop_rows [OF loop] wd by simp
  then have len: "length rows = length (filter (has_block weather_data) sols)"
    by (rule list_all2_lengthD)
  have "length (filter (has_block weather_data) sols) \<le> length sols"
    by (rule length_filter_le)
  then have "length rows \<le> py_len sol_keys"
    using len py_iter_length [OF it] by simp
  with wd sk it corr len show ?thesis by simp
qed

theorem sols_without_block_give_no_row_witness:
  "\<exists>rows. weather_rows read_int sample_data = Inr rows
     \<and> length rows = 1
     \<and> (\<exists>sol_keys. field sample_data ''sol_keys'' = Some sol_keys \<and> py_len sol_keys = 7
           \<and> length rows \<le> py_len sol_keys)"
proof -
  obtain rows where r: "weather_rows read_int sample_data = Inr rows" and l: "length rows = 1"
    using sample_data_rows by simp
  from sols_without_block_give_no_row [OF r] obtain sol_keys
    where sk: "field sample_data ''sol_keys'' = Some sol_keys"
      and le: "length rows \<le> py_len sol_keys"
    by auto
  have "py_len sol_keys = 7"
    using sk by (auto simp: sample_data_def)
  with r l sk le show ?thesis by auto
qed

section \<open>Mars weather: missing measurements\<close>






section \<open>NEO normalizer: one record\<close>

lemma subscript_fieldI: "field j k = Some v \<Longrightarrow> subscript j k = Inr v"
  by (simp add: subscript_Inr_iff)

lemma subscripts_fieldI: "field_path j ks = Some v \<Longrightarrow> subscripts j ks = Inr v"
  by (simp add: subscripts_Inr_iff)

lemma first_approach_Cons:
  "field neo ''close_approach_data'' = Some (JArr (a # later)) \<Longrightarrow> first_approach neo = Inr a"
  by (simp add: first_approach_def subscript_fieldI)

lemma first_approach_Nil:
  "field neo ''close_approach_data'' = Some (JArr []) \<Longrightarrow> first_approach neo = Inl IndexError"
  by (simp add: first_approach_def subscript_fieldI)

text \<open>Every field of a record is read from one place of the source object; the two diameter
  bounds are the kilometre bounds of the source, unchanged.\<close>

lemma neo_info_sources:
  assumes "neo_info flt d neo = Inr r"
  shows "field neo ''id'' = Some (neo_id r)"
    and "field neo ''name'' = Some (name r)"
    and "date r = d"
    and "field_path neo [''estimated_diameter'', ''kilometers'', ''estimated_diameter_min'']
           = Some (diameter_min_km r)"
    and "field_path neo [''estimated_diameter'', ''kilometers'', ''estimated_diameter_max'']
           = Some (diameter_max_km r)"
    and "field neo ''is_potentially_hazardous_asteroid'' = Some (is_hazardous r)"
    and "\<exists>a. first_approach neo = Inr a
           \<and> field a ''close_approach_date'' = Some (close_approach_date r)
           \<and> bind_res (subscripts a [''miss_distance'', ''kilometers'']) (py_float flt)
               = Inr (miss_distance_km r)
           \<and> bind_res (subscripts a [''relative_velocity'', ''kilometers_per_hour''])
                (py_float flt) = Inr (relative_velocity_kph r)"
proof -
  from assms obtain v_id v_name v_min v_max v_haz v_cad v_miss v_vel where
    1: "subscript neo ''id'' = Inr v_id" and
    2: "subscript neo ''name'' = Inr v_name" and
    3: "subscripts neo [''estimated_diameter'', ''kilometers'', ''estimated_diameter_min'']
          = Inr v_min" and
    4: "subscripts neo [''estimated_diameter'', ''kilometers'', ''estimated_diameter_max'']
          = Inr v_max" and
    5: "subscript neo ''is_potentially_hazardous_asteroid'' = Inr v_haz" and
    6: "bind_res (first_approach neo) (\<lambda>a. subscript a ''close_approach_date'') = Inr v_cad" and
    7: "bind_res (bind_res (first_approach neo)
          (\<lambda>a. subscripts a [''miss_distance'', ''kilometers''])) (py_float flt) = Inr v_miss" and
    8: "bind_res (bind_res (first_approach neo)
          (\<lambda>a. subscripts a [''relative_velocity'', ''kilometers_per_hour''])) (py_float flt)
          = Inr v_vel" and
    r: "r = \<lparr> neo_id = v_id, name = v_name, date = d,
           diameter_min_km = v_min, diameter_max_km = v_max,
           is_hazardous = v_haz, close_approach_date = v_cad,
           miss_distance_km = v_miss, relative_velocity_kph = v_vel \<rparr>"
    unfolding neo_info_def by (auto simp: bind_res_eq_Inr)
  from 6 obtain a where a: "first_approach neo = Inr a"
    and cad: "subscript a ''close_approach_date'' = Inr v_cad"
    by (auto simp: bind_res_eq_Inr)
  show "field neo ''id'' = Some (neo_id r)"
    using 1 r by (simp add: subscript_Inr_iff)
  show "field neo ''name'' = Some (name r)"
    using 2 r by (simp add: subscript_Inr_iff)
  show "date r = d"
    using r by simp
  show "field_path neo [''estimated_diameter'', ''kilometers'', ''estimated_diameter_min'']
           = Some (diameter_min_km r)"
    using 3 r by (simp only: subscripts_Inr_iff) simp
  show "field_path neo [''estimated_diameter'', ''kilometers'', ''estimated_diameter_max'']
           = Some (diameter_max_km r)"
    using 4 r by (simp only: subscripts_Inr_iff) simp
  show "field neo ''is_potentially_hazardous_asteroid'' = Some (is_hazardous r)"
    using 5 r by (simp add: subscript_Inr_iff)
  have "field a ''close_approach_date'' = Some (close_approach_date r)"
    using cad r by (simp add: subscript_Inr_iff)
  moreover have "bind_res (subscripts a [''miss_distance'', ''kilometers'']) (py_float flt)
               = Inr (miss_distance_km r)"
    using 7 r unfolding a by (simp only: bind_res_Inr) simp
  moreover have "bind_res (subscripts a [''relative_velocity'', ''kilometers_per_hour''])
                (py_float flt) = Inr (relative_velocity_kph r)"
    using 8 r unfolding a by (simp only: bind_res_Inr) simp
  ultimately show "\<exists>a. first_approach neo = Inr a
           \<and> field a ''close_approach_date'' = Some (close_approach_date r)
           \<and> bind_res (subscripts a [''miss_distance'', ''kilometers'']) (py_float flt)
               = Inr (miss_distance_km r)
           \<and> bind_res (subscripts a [''relative_velocity'', ''kilometers_per_hour''])
                (py_float flt) = Inr (relative_velocity_kph r)"
    using a by (intro exI [of _ a] conjI)
qed

lemma subscript_agree_objects:
  "map_of fs' k = map_of fs k \<Longrightarrow> subscript (JObj fs') k = subscript (JObj fs) k"
  by simp

text \<open>
  C6. For a source object whose close-approach array is not empty, the close-approach date,
  the miss distance and the relative velocity of the record are read from the entry at index
  0; the entries after it do not enter: an object that differs only in them gives the same
  result.
\<close>

theorem first_approach_only:
  assumes "field neo ''close_approach_data'' = Some (JArr (a # later))"
  shows "(\<forall>r. neo_info flt d neo = Inr r \<longrightarrow>
            field a ''close_approach_date'' = Some (close_approach_date r)
            \<and> bind_res (subscripts a [''miss_distance'', ''kilometers'']) (py_float flt)
                = Inr (miss_distance_km r)
            \<and> bind_res (subscripts a [''relative_velocity'', ''kilometers_per_hour''])
                 (py_float flt) = Inr (relative_velocity_kph r))
       \<and> (\<forall>neo' later'.
            field neo' ''close_approach_data'' = Some (JArr (a # later'))
            \<and> (\<forall>k. k \<noteq> ''close_approach_data'' \<longrightarrow> field neo' k = field neo k)
            \<longrightarrow> neo_info flt d neo' = neo_info flt d neo)"
proof (intro conjI allI impI)
  fix r
  assume "neo_info flt d neo = Inr r"
  from neo_info_sources(7) [OF this] obtain b where b: "first_approach neo = Inr b"
    and rest: "field b ''close_approach_date'' = Some (close_approach_date r)"
      "bind_res (subscripts b [''miss_distance'', ''kilometers'']) (py_float flt)
         = Inr (miss_distance_km r)"
      "bind_res (subscripts b [''relative_velocity'', ''kilometers_per_hour''])
         (py_float flt) = Inr (relative_velocity_kph r)"
    by (elim exE conjE)
  have "b = a"
    using b first_approach_Cons [OF assms] by simp
  with rest show "field a ''close_approach_date'' = Some (close_approach_date r)"
    and "bind_res (subscripts a [''miss_distance'', ''kilometers'']) (py_float flt)
                = Inr (miss_distance_km r)"
    and "bind_res (subscripts a [''relative_velocity'', ''kilometers_per_hour''])
                 (py_float flt) = Inr (relative_velocity_kph r)"
    by simp_all
next
  fix neo' later'
  assume h: "field neo' ''close_approach_data'' = Some (JArr (a # later'))
            \<and> (\<forall>k. k \<noteq> ''close_approach_data'' \<longrightarrow> field neo' k = field neo k)"
  from assms obtain fs where fs: "neo = JObj fs" by (cases neo) auto
  from h obtain fs' where fs': "neo' = JObj fs'" by (cases neo') auto
  have same: "map_of fs' k = map_of fs k" if "k \<noteq> ''close_approach_data''" for k
    using h that fs fs' by simp
  have s1: "subscript neo' ''id'' = subscript neo ''id''"
    and s2: "subscript neo' ''name'' = subscript neo ''name''"
    and s3: "subscript neo' ''estimated_diameter'' = subscript neo ''estimated_diameter''"
    and s4: "subscript neo' ''is_potentially_hazardous_asteroid''
               = subscript neo ''is_potentially_hazardous_asteroid''"
    unfolding fs fs' by (rule subscript_agree_objects, rule same, simp)+
  have fa: "first_approach neo' = first_approach neo"
    using first_approach_Cons [OF assms] first_approach_Cons [OF h [THEN conjunct1]] by simp
  show "neo_info flt d neo' = neo_info flt d neo"
    unfolding neo_info_def subscripts.simps s1 s2 s3 s4 fa ..
qed

theorem first_approach_only_witness:
  "neo_info read_decimal ''2024-01-01''
     (mk_neo ''2465633'' (2 / 10) (5 / 10) True
        [mk_approach ''2024-01-01'' ''1200000'' ''65000.5'',
         mk_approach ''2024-01-06'' ''900000'' ''70000''])
   = Inr \<lparr> neo_id = JStr ''2465633'', name = JStr ''(2465633)'', date = ''2024-01-01'',
           diameter_min_km = JNum (2 / 10), diameter_max_km = JNum (5 / 10),
           is_hazardous = JBool True, close_approach_date = JStr ''2024-01-01'',
           miss_distance_km = 1200000, relative_velocity_kph = 130001 / 2 \<rparr>
   \<and> neo_info read_decimal ''2024-01-01''
        (mk_neo ''2465633'' (2 / 10) (5 / 10) True
           [mk_approach ''2024-01-01'' ''1200000'' ''65000.5''])
     = neo_info read_decimal ''2024-01-01''
        (mk_neo ''2465633'' (2 / 10) (5 / 10) True
           [mk_approach ''2024-01-01'' ''1200000'' ''65000.5'',
            mk_approach ''2024-01-06'' ''900000'' ''70000''])"
proof -
  let ?a = "mk_approach ''2024-01-01'' ''1200000'' ''65000.5''"
  let ?b = "mk_approach ''2024-01-06'' ''900000'' ''70000''"
  let ?neo = "mk_neo ''2465633'' (2 / 10) (5 / 10) True [?a, ?b]"
  let ?neo' = "mk_neo ''2465633'' (2 / 10) (5 / 10) True [?a]"
  have h: "field ?neo ''close_approach_data'' = Some (JArr (?a # [?b]))"
    by (simp add: mk_neo_def)
  have h': "field ?neo' ''close_approach_data'' = Some (JArr (?a # []))
     \<and> (\<forall>k. k \<noteq> ''close_approach_data'' \<longrightarrow> field ?neo' k = field ?neo k)"
    by (simp add: mk_neo_def)
  note inst = first_approach_only [OF h, of read_decimal "''2024-01-01''", THEN conjunct2,
      THEN spec, THEN spec, THEN mp, OF h']
  have rec: "neo_info read_decimal ''2024-01-01'' ?neo
     = Inr \<lparr> neo_id = JStr ''2465633'', name = JStr ''(2465633)'', date = ''2024-01-01'',
           diameter_min_km = JNum (2 / 10), diameter_max_km = JNum (5 / 10),
           is_hazardous = JBool True, close_approach_date = JStr ''2024-01-01'',
           miss_distance_km = 1200000, relative_velocity_kph = 130001 / 2 \<rparr>"
    by (simp add: neo_info_def first_approach_def mk_neo_def mk_approach_def read_decimal_def
        read_nat_def digit_of_def)
  from rec inst show ?thesis by (rule conjI)
qed

section \<open>NEO normalizer: a valid feed\<close>

lemma numeric_stringD:
  "numeric_string flt v \<Longrightarrow> \<exists>s x. v = Some (JStr s) \<and> flt s = Some x"
  by (induction flt v rule: numeric_string.induct) auto

lemma ordered_boundsD:
  "ordered_bounds u v \<Longrightarrow> \<exists>a b. u = Some (JNum a) \<and> v = Some (JNum b) \<and> a \<le> b"
  by (induction u v rule: ordered_bounds.induct) auto

lemma nonempty_approachesD:
  "nonempty_approaches flt v \<Longrightarrow> \<exists>a later. v = Some (JArr (a # later)) \<and> valid_approach flt a"
  by (induction flt v rule: nonempty_approaches.induct) auto

lemma valid_neo_info:
  assumes "valid_neo flt neo"
  shows "\<exists>r. neo_info flt d neo = Inr r \<and> diameter_ordered r"
proof -
  from assms obtain v_id v_name v_haz
    where 1: "field neo ''id'' = Some v_id" and 2: "field neo ''name'' = Some v_name"
      and 5: "field neo ''is_potentially_hazardous_asteroid'' = Some v_haz"
    by (auto simp: valid_neo_def)
  from assms have "ordered_bounds
          (field_path neo [''estimated_diameter'', ''kilometers'', ''estimated_diameter_min''])
          (field_path neo [''estimated_diameter'', ''kilometers'', ''estimated_diameter_max''])"
    by (simp add: valid_neo_def)
  from ordered_boundsD [OF this] obtain lo hi
    where 3: "field_path neo [''estimated_diameter'', ''kilometers'', ''estimated_diameter_min'']
                = Some (JNum lo)"
      and 4: "field_path neo [''estimated_diameter'', ''kilometers'', ''estimated_diameter_max'']
                = Some (JNum hi)"
      and le: "lo \<le> hi"
    by (elim exE conjE)
  from assms have "nonempty_approaches flt (field neo ''close_approach_data'')"
    by (simp add: valid_neo_def)
  from nonempty_approachesD [OF this] obtain a later
    where cad: "field neo ''close_approach_data'' = Some (JArr (a # later))"
      and va: "valid_approach flt a"
    by (elim exE conjE)
  from va obtain v_cad where 6: "field a ''close_approach_date'' = Some v_cad"
    by (auto simp: valid_approach_def)
  from va have "numeric_string flt (field_path a [''miss_distance'', ''kilometers''])"
    by (simp add: valid_approach_def)
  from numeric_stringD [OF this] obtain s_miss miss
    where 7: "field_path a [''miss_distance'', ''kilometers''] = Some (JStr s_miss)"
      and miss_ok: "flt s_miss = Some miss"
    by (elim exE conjE)
  from va have "numeric_string flt (field_path a [''relative_velocity'', ''kilometers_per_hour''])"
    by (simp add: valid_approach_def)
  from numeric_stringD [OF this] obtain s_vel vel
    where 8: "field_path a [''relative_velocity'', ''kilometers_per_hour''] = Some (JStr s_vel)"
      and vel_ok: "flt s_vel = Some vel"
    by (elim exE conjE)
  have "neo_info flt d neo =
      Inr \<lparr> neo_id = v_id, name = v_name, date = d,
           diameter_min_km = JNum lo, diameter_max_km = JNum hi,
           is_hazardous = v_haz, close_approach_date = v_cad,
           miss_distance_km = miss, relative_velocity_kph = vel \<rparr>"
    unfolding neo_info_def
    by (simp only: subscript_fieldI [OF 1] subscript_fieldI [OF 2] subscripts_fieldI [OF 3]
        subscripts_fieldI [OF 4] subscript_fieldI [OF 5] first_approach_Cons [OF cad]
        subscript_fieldI [OF 6] subscripts_fieldI [OF 7] subscripts_fieldI [OF 8]
        bind_res_Inr py_float.simps miss_ok vel_ok option.case)
  moreover have "diameter_ordered \<lparr> neo_id = v_id, name = v_name, date = d,
           diameter_min_km = JNum lo, diameter_max_km = JNum hi,
           is_hazardous = v_haz, close_approach_date = v_cad,
           miss_distance_km = miss, relative_velocity_kph = vel \<rparr>"
    using le by (simp add: diameter_ordered_def)
  ultimately show ?thesis by simp
qed

lemma neo_rows_valid:
  "list_all (valid_neo flt) neos \<Longrightarrow>
     \<exists>rs. neo_rows flt d neos = Inr rs \<and> length rs = length neos \<and> list_all diameter_ordered rs"
proof (induction neos)
  case Nil
  show ?case by simp
next
  case (Cons neo neos)
  from Cons.prems have "valid_neo flt neo" by simp
  from valid_neo_info [OF this, where d = d] obtain r
    where r: "neo_info flt d neo = Inr r" and ord: "diameter_ordered r"
    by (elim exE conjE)
  from Cons obtain rs where rs: "neo_rows flt d neos = Inr rs"
    and len: "length rs = length neos" and all: "list_all diameter_ordered rs"
    by auto
  show ?case using r ord rs len all by simp
qed

lemma neo_days_valid:
  "list_all (\<lambda>day. valid_day flt (snd day)) days \<Longrightarrow>
     \<exists>rs. neo_days flt days = Inr rs
        \<and> length rs = sum_list (map (\<lambda>day. entries_of_day (snd day)) days)
        \<and> list_all diameter_ordered rs"
proof (induction days)
  case Nil
  show ?case by simp
next
  case (Cons day days)
  obtain d v where day: "day = (d, v)" by (cases day)
  from Cons.prems day have "valid_day flt v" by simp
  then obtain neos where v: "v = JArr neos" and ok: "list_all (valid_neo flt) neos"
    by (cases v) auto
  from neo_rows_valid [OF ok, where d = d] obtain rs where rs: "neo_rows flt d neos = Inr rs"
    and len: "length rs = length neos" and all: "list_all diameter_ordered rs"
    by (elim exE conjE)
  from Cons obtain rs' where rs': "neo_days flt days = Inr rs'"
    and len': "length rs' = sum_list (map (\<lambda>day. entries_of_day (snd day)) days)"
    and all': "list_all diameter_ordered rs'"
    by auto
  show ?case using day v rs len all rs' len' all' by simp
qed

text \<open>
  C2. For every valid NEO feed (each object entry has the members the normalizer reads, the
  kilometre diameter bounds as numbers with the minimum not above the maximum, and a
  close-approach entry with numeric strings), the normalizer returns exactly as many records
  as the feed has object entries over all its date keys, and every record has
  \<open>diameter_min_km \<le> diameter_max_km\<close>.
\<close>

theorem valid_feed_records:
  assumes "valid_feed flt data"
  shows "\<exists>recs. neo_normalize flt data = Inr recs
           \<and> length recs = total_entries data
           \<and> list_all diameter_ordered recs"
proof -
  from assms obtain days where days: "field data ''near_earth_objects'' = Some (JObj days)"
    and ok: "list_all (\<lambda>day. valid_day flt (snd day)) days"
    by (auto split: option.splits json.splits)
  from neo_days_valid [OF ok] obtain rs where rs: "neo_days flt days = Inr rs"
    and len: "length rs = sum_list (map (\<lambda>day. entries_of_day (snd day)) days)"
    and all: "list_all diameter_ordered rs"
    by (elim exE conjE)
  have "neo_normalize flt data = Inr rs"
    by (simp add: neo_normalize_def subscript_fieldI [OF days] rs)
  moreover have "length rs = total_entries data"
    using len days by simp
  ultimately show ?thesis using all by simp
qed

lemma example_feed_valid: "valid_feed read_decimal example_feed"
  by (simp add: example_feed_def mk_neo_def mk_approach_def valid_neo_def valid_approach_def
      read_decimal_def read_nat_def digit_of_def)

lemma example_feed_entries: "total_entries example_feed = 3"
  by (simp add: example_feed_def)

theorem valid_feed_records_witness:
  "valid_feed read_decimal example_feed
   \<and> (\<exists>recs. neo_normalize read_decimal example_feed = Inr recs
          \<and> length recs = 3 \<and> list_all diameter_ordered recs)"
  using valid_feed_records [OF example_feed_valid] example_feed_valid
  by (simp only: example_feed_entries)

section \<open>NEO normalizer: an empty close-approach array\<close>

lemma neo_info_needs_approach:
  assumes "first_approach neo = Inl e"
  shows "\<exists>e'. neo_info flt d neo = Inl e'"
proof (cases "neo_info flt d neo")
  case (Inl e')
  then show ?thesis by simp
next
  case (Inr r)
  from neo_info_sources(7) [OF Inr] assms show ?thesis by simp
qed

lemma neo_rows_fail:
  "neo \<in> set neos \<Longrightarrow> neo_info flt d neo = Inl e \<Longrightarrow> \<exists>e'. neo_rows flt d neos = Inl e'"
proof (induction neos)
  case Nil
  then show ?case by simp
next
  case (Cons x neos)
  show ?case
  proof (cases "neo_info flt d x")
    case (Inl e')
    then show ?thesis by simp
  next
    case (Inr r)
    with Cons.prems have "neo \<in> set neos" by auto
    from Cons.IH [OF this Cons.prems(2)] obtain e' where "neo_rows flt d neos = Inl e'" ..
    with Inr show ?thesis by simp
  qed
qed

lemma neo_days_fail:
  "(d, JArr neos) \<in> set days \<Longrightarrow> neo_rows flt d neos = Inl e \<Longrightarrow>
     \<exists>e'. neo_days flt days = Inl e'"
proof (induction days)
  case Nil
  then show ?case by simp
next
  case (Cons day days)
  obtain d' v where day: "day = (d', v)" by (cases day)
  show ?case
  proof (cases "py_iter v")
    case (Inl e')
    with day show ?thesis by simp
  next
    case it: (Inr xs)
    show ?thesis
    proof (cases "neo_rows flt d' xs")
      case (Inl e')
      with day it show ?thesis by simp
    next
      case (Inr rs)
      have "(d, JArr neos) \<noteq> day"
        using Inr it day Cons.prems(2) by auto
      with Cons.prems(1) have "(d, JArr neos) \<in> set days" by simp
      from Cons.IH [OF this Cons.prems(2)] obtain e' where "neo_days flt days = Inl e'" ..
      with day it Inr show ?thesis by simp
    qed
  qed
qed

text \<open>
  C10. For a source object whose \<^verbatim>\<open>close_approach_data\<close> array is empty, the access at index
  0 raises IndexError, so no record is built for it (the error is that IndexError once the
  members read before it are present), and the normalizer fails on every feed that holds such
  an object in one of its day arrays. The normalizer returns records only for feeds in which
  every object has at least one close-approach entry.
\<close>

theorem empty_approaches_fail:
  assumes "field neo ''close_approach_data'' = Some (JArr [])"
  shows "first_approach neo = Inl IndexError
     \<and> (\<exists>e. neo_info flt d neo = Inl e)
     \<and> (field neo ''id'' \<noteq> None \<and> field neo ''name'' \<noteq> None
          \<and> field_path neo [''estimated_diameter'', ''kilometers'', ''estimated_diameter_min'']
              \<noteq> None
          \<and> field_path neo [''estimated_diameter'', ''kilometers'', ''estimated_diameter_max'']
              \<noteq> None
          \<and> field neo ''is_potentially_hazardous_asteroid'' \<noteq> None
          \<longrightarrow> neo_info flt d neo = Inl IndexError)
     \<and> (\<forall>data days neos.
            field data ''near_earth_objects'' = Some (JObj days)
            \<and> (d, JArr neos) \<in> set days \<and> neo \<in> set neos
            \<longrightarrow> (\<exists>e. neo_normalize flt data = Inl e))"
proof (intro conjI allI impI)
  show fa: "first_approach neo = Inl IndexError"
    using assms by (rule first_approach_Nil)
  show fail: "\<exists>e. neo_info flt d neo = Inl e"
    using fa by (rule neo_info_needs_approach)
  {
    assume present: "field neo ''id'' \<noteq> None \<and> field neo ''name'' \<noteq> None
          \<and> field_path neo [''estimated_diameter'', ''kilometers'', ''estimated_diameter_min'']
              \<noteq> None
          \<and> field_path neo [''estimated_diameter'', ''kilometers'', ''estimated_diameter_max'']
              \<noteq> None
          \<and> field neo ''is_potentially_hazardous_asteroid'' \<noteq> None"
    then obtain v1 v2 v3 v4 v5 where 1: "field neo ''id'' = Some v1"
      and 2: "field neo ''name'' = Some v2"
      and 3: "field_path neo [''estimated_diameter'', ''kilometers'', ''estimated_diameter_min'']
                = Some v3"
      and 4: "field_path neo [''estimated_diameter'', ''kilometers'', ''estimated_diameter_max'']
                = Some v4"
      and 5: "field neo ''is_potentially_hazardous_asteroid'' = Some v5"
      by auto
    show "neo_info flt d neo = Inl IndexError"
      unfolding neo_info_def
      by (simp only: subscript_fieldI [OF 1] subscript_fieldI [OF 2] subscripts_fieldI [OF 3]
          subscripts_fieldI [OF 4] subscript_fieldI [OF 5] fa bind_res_Inr bind_res_Inl)
  }
  {
    fix data days neos
    assume h: "field data ''near_earth_objects'' = Some (JObj days)
            \<and> (d, JArr neos) \<in> set days \<and> neo \<in> set neos"
    from fail obtain e where "neo_info flt d neo = Inl e" ..
    with h obtain e' where "neo_rows flt d neos = Inl e'"
      using neo_rows_fail [of neo neos flt d e] by auto
    with h obtain e'' where "neo_days flt days = Inl e''"
      using neo_days_fail [of d neos days flt e'] by auto
    then have "neo_normalize flt data = Inl e''"
      using h by (simp add: neo_normalize_def subscript_fieldI)
    then show "\<exists>e. neo_normalize flt data = Inl e" ..
  }
qed

theorem empty_approaches_fail_witness:
  "neo_info read_decimal ''2024-01-01'' (mk_neo ''2465633'' (2 / 10) (5 / 10) True [])
     = Inl IndexError
   \<and> (\<exists>e. neo_normalize read_decimal example_feed_no_approach = Inl e)"
proof -
  let ?neo = "mk_neo ''2465633'' (2 / 10) (5 / 10) True []"
  let ?good = "mk_neo ''3542519'' (1 / 10) (3 / 10) False
                 [mk_approach ''2024-01-01'' ''7500000.5'' ''48000.25'']"
  have h: "field ?neo ''close_approach_data'' = Some (JArr [])"
    by (simp add: mk_neo_def)
  note inst = empty_approaches_fail [OF h, of read_decimal "''2024-01-01''"]
  have present: "field ?neo ''id'' \<noteq> None \<and> field ?neo ''name'' \<noteq> None
          \<and> field_path ?neo [''estimated_diameter'', ''kilometers'', ''estimated_diameter_min'']
              \<noteq> None
          \<and> field_path ?neo [''estimated_diameter'', ''kilometers'', ''estimated_diameter_max'']
              \<noteq> None
          \<and> field ?neo ''is_potentially_hazardous_asteroid'' \<noteq> None"
    by (simp add: mk_neo_def)
  have one: "neo_info read_decimal ''2024-01-01'' ?neo = Inl IndexError"
    by (rule inst [THEN conjunct2, THEN conjunct2, THEN conjunct1, THEN mp, OF present])
  have feed: "field example_feed_no_approach ''near_earth_objects''
        = Some (JObj [(''2024-01-01'', JArr [?good, ?neo])])
      \<and> (''2024-01-01'', JArr [?good, ?neo]) \<in> set [(''2024-01-01'', JArr [?good, ?neo])]
      \<and> ?neo \<in> set [?good, ?neo]"
    by (simp add: example_feed_no_approach_def)
  have two: "\<exists>e. neo_normalize read_decimal example_feed_no_approach = Inl e"
    by (rule inst [THEN conjunct2, THEN conjunct2, THEN conjunct2, THEN spec, THEN spec,
          THEN spec, THEN mp, OF feed])
  from one two show ?thesis by (rule conjI)
qed

lemma example_feed_no_approach_error:
  "neo_normalize read_decimal example_feed_no_approach = Inl IndexError"
  by (simp add: neo_normalize_def example_feed_no_approach_def neo_info_def first_approach_def
      mk_neo_def mk_approach_def read_decimal_def read_nat_def digit_of_def)

section \<open>Mars weather: the page on the sample data\<close>

text \<open>Had the handler of \<^verbatim>\<open>get_mars_weather\<close> run, the page would have built the row of
  sol 259 from the sample data.\<close>

lemma sample_data_page:
  "\<exists>row. weather_page read_int (get_mars_weather OtherException) = Inr (Some [row])
          \<and> Sol row = 259"
proof -
  have t: "truthy sample_data" by (simp add: sample_data_def)
  have l: "str_in ''sol_keys'' sample_data = Inr True" by (simp add: sample_data_def)
  show ?thesis
    unfolding other_exception_uses_sample weather_page_def
    by (simp only: t l sample_data_rows bind_res_Inr if_True) simp
qed

end
